theory Spec2Isabelle
  imports Main
begin

section \<open>The plugin framework of \<^verbatim>\<open>trinity/extensibility/plugin.py\<close>\<close>

text \<open>
  The module defines \<^verbatim>\<open>PluginContext\<close> and the plugin base classes. Its methods act
  on three things: the fields of the object itself, the fields of the context, and
  collaborators outside the module (the event bus endpoint, the logger, the process
  object, the logging set-up). The fields are records, threaded through each method; every
  call to a collaborator is appended, in program order, to a list of actions. An exception
  is a value: a method returns \<open>Returned\<close> or \<open>Raised\<close>, and both carry the object and the
  actions as they are at that moment, since Python does not undo what a method did before
  it raised.
\<close>

subsection \<open>Values and collaborators\<close>

text \<open>Values of Python's \<^verbatim>\<open>Any\<close>, as far as the module needs them: None, integers
  (log levels), strings and opaque objects (a log queue), the latter known by an identity.\<close>

datatype pyval = PyNone | PyInt int | PyStr string | PyObj nat

text \<open>\<^verbatim>\<open>logging.INFO\<close> of the standard library.\<close>

definition logging_INFO :: pyval where
  "logging_INFO = PyInt 20"

text \<open>A \<^verbatim>\<open>lahja.Endpoint\<close> is known by its name; \<^verbatim>\<open>argparse.Namespace\<close> is a bag of
  attributes; \<^verbatim>\<open>TrinityConfig\<close> is an object of another module, known by an identity.\<close>

datatype Endpoint = Endpoint string

datatype Namespace = Namespace "(string \<times> pyval) list"

datatype TrinityConfig = TrinityConfig nat

datatype BroadcastConfig = BroadcastConfig (filter_endpoint: "string option")

text \<open>Modelled from the spec: the constant \<^verbatim>\<open>MAIN_EVENTBUS_ENDPOINT\<close> of
  \<^verbatim>\<open>trinity.constants\<close> is not among the sources; the spec calls it the name of the
  main/host endpoint. No theorem below depends on the string chosen here.\<close>

definition MAIN_EVENTBUS_ENDPOINT :: string where
  "MAIN_EVENTBUS_ENDPOINT = ''main''"

text \<open>The events: \<^verbatim>\<open>ShutdownRequest()\<close> has no payload, \<^verbatim>\<open>PluginStartedEvent(type(self))\<close>
  carries the class of the plugin, here the name of that class.\<close>

datatype event = ShutdownRequest | PluginStartedEvent string

text \<open>\<^verbatim>\<open>ctx.Process(target=...)\<close>: the process object, with the method it will run.\<close>

datatype Process = Process (target: string)

datatype signal = Interrupt | ForcedTermination

text \<open>
  One action per call that leaves the module. \<open>Invoke_start\<close> is the one entry that is not
  a call to a collaborator: it marks the moment \<^verbatim>\<open>self.start()\<close> is entered, so that the
  order of that call and of the broadcasts can be read off the list.
\<close>

datatype action =
    Broadcast Endpoint event "BroadcastConfig option"
  | ConnectNoWait Endpoint
  | EndpointStop Endpoint
  | SetupQueueLogging pyval pyval
  | ProcessStart Process
  | LogInfo string string
  | EnsureFuture string
  | SendSignal Process signal
  | WaitGracePeriod Process
  | LogFault string string
  | Invoke_start

datatype exn =
    EventBusNotReady string
  | AttributeError string
  | KeyError string
  | TypeError string
  | PluginError string

subsection \<open>PluginContext\<close>

record PluginContext =
  event_bus :: Endpoint
  boot_kwargs :: "(string \<rightharpoonup> pyval) option"
  args :: "Namespace option"
  trinity_config :: "TrinityConfig option"

text \<open>\<^verbatim>\<open>PluginContext.__init__\<close>: the endpoint is stored, the other three fields are None.\<close>

definition PluginContext_init :: "Endpoint \<Rightarrow> PluginContext" where
  "PluginContext_init endpoint =
     \<lparr>event_bus = endpoint, boot_kwargs = None, args = None, trinity_config = None\<rparr>"

text \<open>\<^verbatim>\<open>PluginContext.shutdown_host\<close>: one call of \<^verbatim>\<open>broadcast\<close> on the context's own
  endpoint, whose result is dropped. The method assigns no field and has no
  \<^verbatim>\<open>return\<close>: the value returned is None, the context is as it was.\<close>

record shutdown_host_result =
  returned :: pyval
  context_after :: PluginContext
  actions_after :: "action list"

definition shutdown_host :: "PluginContext \<Rightarrow> action list \<Rightarrow> shutdown_host_result" where
  "shutdown_host self t =
     \<lparr>returned = PyNone,
      context_after = self,
      actions_after =
        t @ [Broadcast (event_bus self) ShutdownRequest
               (Some (BroadcastConfig (Some MAIN_EVENTBUS_ENDPOINT)))]\<rparr>"

subsection \<open>Plugins\<close>

text \<open>
  The four base classes are abstract (\<^verbatim>\<open>name\<close> is an abstract property), so every plugin
  object is of a subclass that supplies \<^verbatim>\<open>name\<close> and may override \<^verbatim>\<open>start\<close> and
  \<^verbatim>\<open>stop\<close>. What the subclass supplies is part of the object: the name of its class, the
  base class it derives from, its \<^verbatim>\<open>name\<close>, and the bodies of its \<^verbatim>\<open>start\<close> and \<^verbatim>\<open>stop\<close>.
  A body is the actions it performs and the exception it ends with, if any; the bodies of
  the module (\<^verbatim>\<open>pass\<close>, and those of \<^verbatim>\<open>DebugPlugin\<close>) are of this form.
\<close>

datatype base_class =
    BaseSyncStopPlugin
  | BaseAsyncStopPlugin
  | BaseMainProcessPlugin
  | BaseIsolatedPlugin

datatype body = Body (emits: "action list") (raises: "exn option")

definition pass :: body where
  "pass = Body [] None"

text \<open>The class attributes \<^verbatim>\<open>context\<close>, \<^verbatim>\<open>running\<close> and \<^verbatim>\<open>_process\<close> are the fields
  \<open>plugin_context\<close>, \<open>running\<close> and \<open>process\<close>.\<close>

record plugin =
  plugin_type :: string
  variant :: base_class
  name :: string
  start_body :: body
  stop_body :: body
  plugin_context :: "PluginContext option"
  running :: bool
  process :: "Process option"

text \<open>A new object has the class attributes' defaults: no context, not running, no
  process.\<close>

definition new_plugin :: "string \<Rightarrow> base_class \<Rightarrow> string \<Rightarrow> body \<Rightarrow> body \<Rightarrow> plugin" where
  "new_plugin ty v n sb tb =
     \<lparr>plugin_type = ty, variant = v, name = n, start_body = sb, stop_body = tb,
      plugin_context = None, running = False, process = None\<rparr>"

datatype result =
    Returned plugin "action list"
  | Raised exn plugin "action list"

fun plugin_of :: "result \<Rightarrow> plugin" where
  "plugin_of (Returned p t) = p"
| "plugin_of (Raised e p t) = p"

fun trace_of :: "result \<Rightarrow> action list" where
  "trace_of (Returned p t) = t"
| "trace_of (Raised e p t) = t"

fun exn_of :: "result \<Rightarrow> exn option" where
  "exn_of (Returned p t) = None"
| "exn_of (Raised e p t) = Some e"

text \<open>Running a body: its actions happen, then it returns or raises.\<close>

definition run_body :: "body \<Rightarrow> plugin \<Rightarrow> action list \<Rightarrow> result" where
  "run_body b p t =
     (case raises b of
        None \<Rightarrow> Returned p (t @ emits b)
      | Some e \<Rightarrow> Raised e p (t @ emits b))"

text \<open>\<^verbatim>\<open>BasePlugin.logger\<close>: the logger is known by its name, which ends in \<^verbatim>\<open>self.name\<close>.\<close>

definition logger :: "plugin \<Rightarrow> string" where
  "logger self = ''trinity.extensibility.plugin.BasePlugin#'' @ name self"

text \<open>\<^verbatim>\<open>BasePlugin.event_bus\<close>: a property that reads, and raises when there is no
  context.\<close>

definition BasePlugin_event_bus :: "plugin \<Rightarrow> exn + Endpoint" where
  "BasePlugin_event_bus self =
     (case plugin_context self of
        None \<Rightarrow> Inl (EventBusNotReady ''Tried accessing ``event_bus`` before ``ready`` was called'')
      | Some c \<Rightarrow> Inr (event_bus c))"

text \<open>\<^verbatim>\<open>BasePlugin.set_context\<close>: one assignment.\<close>

definition BasePlugin_set_context :: "plugin \<Rightarrow> PluginContext \<Rightarrow> plugin" where
  "BasePlugin_set_context self c = self\<lparr>plugin_context := Some c\<rparr>"

text \<open>\<^verbatim>\<open>BasePlugin.ready\<close>: \<^verbatim>\<open>pass\<close>.\<close>

definition BasePlugin_ready :: "plugin \<Rightarrow> action list \<Rightarrow> result" where
  "BasePlugin_ready self t = Returned self t"

text \<open>\<^verbatim>\<open>self.start()\<close>: the call is marked, then the body of the object's class runs
  (\<^verbatim>\<open>pass\<close> in \<^verbatim>\<open>BasePlugin\<close>).\<close>

definition start :: "plugin \<Rightarrow> action list \<Rightarrow> result" where
  "start self t = run_body (start_body self) self (t @ [Invoke_start])"

text \<open>\<^verbatim>\<open>BasePlugin.boot\<close>, statement by statement: the flag, \<^verbatim>\<open>start\<close>, the property
  \<^verbatim>\<open>event_bus\<close> (which may raise), the broadcast, the log record.\<close>

definition BasePlugin_boot :: "plugin \<Rightarrow> action list \<Rightarrow> result" where
  "BasePlugin_boot self t =
     (let self1 = self\<lparr>running := True\<rparr> in
      case start self1 t of
        Raised e self2 t2 \<Rightarrow> Raised e self2 t2
      | Returned self2 t2 \<Rightarrow>
          (case BasePlugin_event_bus self2 of
             Inl e \<Rightarrow> Raised e self2 t2
           | Inr bus \<Rightarrow>
               Returned self2
                 (t2 @ [Broadcast bus (PluginStartedEvent (plugin_type self2)) None,
                        LogInfo (logger self2) (''Plugin started: '' @ name self2)])))"

subsection \<open>The isolated plugin\<close>

text \<open>\<^verbatim>\<open>BaseIsolatedPlugin.boot\<close>: the flag, the process object with \<^verbatim>\<open>_prepare_start\<close> as
  its target, \<^verbatim>\<open>Process.start()\<close>, the log record. The target runs in the new process,
  not in this method.\<close>

definition BaseIsolatedPlugin_boot :: "plugin \<Rightarrow> action list \<Rightarrow> result" where
  "BaseIsolatedPlugin_boot self t =
     (let self1 = self\<lparr>running := True\<rparr>;
          proc = Process ''_prepare_start'';
          self2 = self1\<lparr>process := Some proc\<rparr>
      in Returned self2
           (t @ [ProcessStart proc,
                 LogInfo (logger self2) (''Plugin started: '' @ name self2)]))"

text \<open>
  \<^verbatim>\<open>BaseIsolatedPlugin._prepare_start\<close>, the target. \<^verbatim>\<open>self.context.boot_kwargs\<close> fails
  with AttributeError when there is no context, the subscript with TypeError when the
  boot parameters are None and with KeyError when the key is missing; \<^verbatim>\<open>dict.get\<close> has a
  default. \<^verbatim>\<open>setup_queue_logging\<close> belongs to another module and is one action. The
  property \<^verbatim>\<open>event_bus\<close> is read twice. The new process runs the method on its own copy
  of the object, with a list of actions of its own.
\<close>

definition BaseIsolatedPlugin_prepare_start :: "plugin \<Rightarrow> action list \<Rightarrow> result" where
  "BaseIsolatedPlugin_prepare_start self t =
     (case plugin_context self of
        None \<Rightarrow> Raised (AttributeError ''boot_kwargs'') self t
      | Some c \<Rightarrow>
          (case boot_kwargs c of
             None \<Rightarrow> Raised (TypeError ''NoneType object is not subscriptable'') self t
           | Some kw \<Rightarrow>
               (case kw ''log_queue'' of
                  None \<Rightarrow> Raised (KeyError ''log_queue'') self t
                | Some log_queue \<Rightarrow>
                    (let level = (case kw ''log_level'' of
                                    None \<Rightarrow> logging_INFO
                                  | Some v \<Rightarrow> v);
                         t1 = t @ [SetupQueueLogging log_queue level]
                     in case BasePlugin_event_bus self of
                          Inl e \<Rightarrow> Raised e self t1
                        | Inr bus \<Rightarrow>
                            (let t2 = t1 @ [ConnectNoWait bus] in
                             case BasePlugin_event_bus self of
                               Inl e \<Rightarrow> Raised e self t2
                             | Inr bus' \<Rightarrow>
                                 start self
                                   (t2 @ [Broadcast bus'
                                            (PluginStartedEvent (plugin_type self)) None]))))))"

text \<open>How the operating system's process answers the signals: whether it is gone at the
  end of the grace period after the interrupt, and whether it is gone after the forced
  termination. The helper below waits for the first answer only.\<close>

record process_behaviour =
  exits_on_interrupt :: bool
  exits_on_forced :: bool

text \<open>Modelled from the spec: \<^verbatim>\<open>kill_process_gracefully\<close> of \<^verbatim>\<open>trinity.utils.ipc\<close> is
  not among the sources. The spec, on the stop sequence: send an interrupt signal; wait a
  bounded grace period; if the process has not exited, send a forced termination signal;
  exceeding the grace period without the process exiting is, after the forced signal,
  logged as a fault and never raises to the caller. The spec, on errors: a plugin that
  fails to exit after the graceful signal is handled by escalating to forced termination,
  logged, never propagated. So every escalation is logged, once, after the forced signal,
  whatever the process does with that signal; and the helper always returns.\<close>

definition kill_process_gracefully ::
    "process_behaviour \<Rightarrow> Process \<Rightarrow> string \<Rightarrow> action list \<Rightarrow> action list" where
  "kill_process_gracefully env proc lg t =
     (let t1 = t @ [SendSignal proc Interrupt, WaitGracePeriod proc] in
      if exits_on_interrupt env then t1
      else t1 @ [SendSignal proc ForcedTermination,
                 LogFault lg ''process did not exit within the grace period''])"

text \<open>\<^verbatim>\<open>BaseIsolatedPlugin.stop\<close>: \<^verbatim>\<open>self.context.event_bus.stop()\<close> reads the field
  \<^verbatim>\<open>context\<close>, not the property, so a missing context is an AttributeError; then the
  helper is called with \<^verbatim>\<open>self._process\<close>. The helper's parameter is a process; given
  None (a plugin that was never booted) it has no process to signal, which is written
  here as an AttributeError.\<close>

definition BaseIsolatedPlugin_stop :: "process_behaviour \<Rightarrow> plugin \<Rightarrow> action list \<Rightarrow> result" where
  "BaseIsolatedPlugin_stop env self t =
     (case plugin_context self of
        None \<Rightarrow> Raised (AttributeError ''event_bus'') self t
      | Some c \<Rightarrow>
          (let t1 = t @ [EndpointStop (event_bus c)] in
           case process self of
             None \<Rightarrow> Raised (AttributeError ''_process is None'') self t1
           | Some proc \<Rightarrow> Returned self (kill_process_gracefully env proc (logger self) t1)))"

text \<open>
  \<^verbatim>\<open>Process.start()\<close> makes the new process call the target of the process object. The
  one target the module ever gives a process is the bound method \<^verbatim>\<open>_prepare_start\<close>;
  any other name is no method of the class. \<open>child_run\<close> is the run of the process an
  object holds, on the object as the new process receives it and with the new process's
  own list of actions; there is none when the object holds no process.
\<close>

fun run_target :: "Process \<Rightarrow> plugin \<Rightarrow> action list \<Rightarrow> result" where
  "run_target (Process m) self u =
     (if m = ''_prepare_start'' then BaseIsolatedPlugin_prepare_start self u
      else Raised (AttributeError m) self u)"

definition child_run :: "plugin \<Rightarrow> action list \<Rightarrow> result option" where
  "child_run self u =
     (case process self of
        None \<Rightarrow> None
      | Some proc \<Rightarrow> Some (run_target proc self u))"

subsection \<open>Method resolution\<close>

text \<open>\<^verbatim>\<open>boot\<close> is defined in \<^verbatim>\<open>BasePlugin\<close> and overridden in \<^verbatim>\<open>BaseIsolatedPlugin\<close>.\<close>

definition boot :: "plugin \<Rightarrow> action list \<Rightarrow> result" where
  "boot self t =
     (case variant self of
        BaseIsolatedPlugin \<Rightarrow> BaseIsolatedPlugin_boot self t
      | _ \<Rightarrow> BasePlugin_boot self t)"

text \<open>
  \<^verbatim>\<open>stop\<close> is defined in \<^verbatim>\<open>BaseSyncStopPlugin\<close> and \<^verbatim>\<open>BaseAsyncStopPlugin\<close> (both
  \<^verbatim>\<open>pass\<close>, to be overridden) and in \<^verbatim>\<open>BaseIsolatedPlugin\<close>; \<^verbatim>\<open>BaseMainProcessPlugin\<close>
  has none, so the call is an AttributeError there. For the asynchronous variant the
  function is the call together with awaiting the coroutine it returns.
\<close>

definition stop :: "process_behaviour \<Rightarrow> plugin \<Rightarrow> action list \<Rightarrow> result" where
  "stop env self t =
     (case variant self of
        BaseSyncStopPlugin \<Rightarrow> run_body (stop_body self) self t
      | BaseAsyncStopPlugin \<Rightarrow> run_body (stop_body self) self t
      | BaseMainProcessPlugin \<Rightarrow> Raised (AttributeError ''stop'') self t
      | BaseIsolatedPlugin \<Rightarrow> BaseIsolatedPlugin_stop env self t)"

subsection \<open>DebugPlugin\<close>

text \<open>The one concrete class of the module: \<^verbatim>\<open>start\<close> logs and schedules
  \<^verbatim>\<open>count_forever\<close> with \<^verbatim>\<open>asyncio.ensure_future\<close>, \<^verbatim>\<open>stop\<close> logs. The coroutine
  \<^verbatim>\<open>count_forever\<close> itself, \<^verbatim>\<open>handle_event\<close> and \<^verbatim>\<open>configure_parser\<close> are not called by
  \<^verbatim>\<open>boot\<close>, \<^verbatim>\<open>start\<close> or \<^verbatim>\<open>stop\<close> and are left out.\<close>

definition DebugPlugin :: plugin where
  "DebugPlugin =
     new_plugin ''DebugPlugin'' BaseAsyncStopPlugin ''Debug Plugin''
       (Body [LogInfo ''trinity.extensibility.plugin.BasePlugin#Debug Plugin''
                ''Debug plugin: start called'',
              EnsureFuture ''count_forever''] None)
       (Body [LogInfo ''trinity.extensibility.plugin.BasePlugin#Debug Plugin''
                ''Debug plugin: stop called''] None)"

subsection \<open>Reading a list of actions\<close>

text \<open>The classes carried by the PluginStartedEvent broadcasts of a list, in order.\<close>

fun started_broadcasts :: "action list \<Rightarrow> string list" where
  "started_broadcasts [] = []"
| "started_broadcasts (Broadcast b (PluginStartedEvent ty) cfg # xs) = ty # started_broadcasts xs"
| "started_broadcasts (x # xs) = started_broadcasts xs"

text \<open>Whether every PluginStartedEvent broadcast of a list comes after an entry into
  \<^verbatim>\<open>start\<close>; the flag says whether \<^verbatim>\<open>start\<close> had been entered before the list began.\<close>

fun started_only_after_start :: "bool \<Rightarrow> action list \<Rightarrow> bool" where
  "started_only_after_start seen [] = True"
| "started_only_after_start seen (Invoke_start # xs) = started_only_after_start True xs"
| "started_only_after_start seen (Broadcast b (PluginStartedEvent ty) cfg # xs) =
     (seen \<and> started_only_after_start seen xs)"
| "started_only_after_start seen (x # xs) = started_only_after_start seen xs"

text \<open>The ShutdownRequest broadcasts of a list, each with its endpoint and its
  configuration.\<close>

fun shutdown_broadcasts :: "action list \<Rightarrow> (Endpoint \<times> BroadcastConfig option) list" where
  "shutdown_broadcasts [] = []"
| "shutdown_broadcasts (Broadcast b ShutdownRequest cfg # xs) = (b, cfg) # shutdown_broadcasts xs"
| "shutdown_broadcasts (x # xs) = shutdown_broadcasts xs"

subsection \<open>Concrete objects\<close>

text \<open>A context as the host fills it in before injection, with both boot parameters,
  with the log queue only, and with the log level only; an isolated plugin whose class
  overrides neither \<^verbatim>\<open>start\<close> nor \<^verbatim>\<open>stop\<close>.\<close>

definition example_context :: PluginContext where
  "example_context =
     (PluginContext_init (Endpoint ''plugin-bus''))
       \<lparr>boot_kwargs := Some [''log_queue'' \<mapsto> PyObj 1, ''log_level'' \<mapsto> PyInt 10]\<rparr>"

definition example_context_no_level :: PluginContext where
  "example_context_no_level =
     (PluginContext_init (Endpoint ''plugin-bus''))
       \<lparr>boot_kwargs := Some [''log_queue'' \<mapsto> PyObj 1]\<rparr>"

definition example_context_no_queue :: PluginContext where
  "example_context_no_queue =
     (PluginContext_init (Endpoint ''plugin-bus''))
       \<lparr>boot_kwargs := Some [''log_level'' \<mapsto> PyInt 10]\<rparr>"

definition example_isolated :: plugin where
  "example_isolated = new_plugin ''ExamplePlugin'' BaseIsolatedPlugin ''Example'' pass pass"

definition debug_with_context :: plugin where
  "debug_with_context = BasePlugin_set_context DebugPlugin example_context"

definition isolated_with_context :: plugin where
  "isolated_with_context = BasePlugin_set_context example_isolated example_context"

text \<open>An isolated plugin whose \<^verbatim>\<open>start\<close> raises, with the full context; and the plain
  isolated plugin with a context as the constructor leaves it, the boot parameters still
  None.\<close>

definition failing_isolated :: plugin where
  "failing_isolated =
     BasePlugin_set_context
       (new_plugin ''FailingPlugin'' BaseIsolatedPlugin ''Failing''
          (Body [] (Some (PluginError ''start failed''))) pass)
       example_context"

definition isolated_bare_context :: plugin where
  "isolated_bare_context =
     BasePlugin_set_context example_isolated (PluginContext_init (Endpoint ''plugin-bus''))"

text \<open>A process that ignores both signals, one that ignores the interrupt only, and one
  that exits on the interrupt.\<close>

definition stubborn :: process_behaviour where
  "stubborn = \<lparr>exits_on_interrupt = False, exits_on_forced = False\<rparr>"

definition reluctant :: process_behaviour where
  "reluctant = \<lparr>exits_on_interrupt = False, exits_on_forced = True\<rparr>"

definition obedient :: process_behaviour where
  "obedient = \<lparr>exits_on_interrupt = True, exits_on_forced = True\<rparr>"

section \<open>Properties\<close>

subsection \<open>What the methods leave alone\<close>

lemma boot_keeps_context: "plugin_context (plugin_of (boot p t)) = plugin_context p"
  by (simp add: boot_def BasePlugin_boot_def BaseIsolatedPlugin_boot_def start_def
      run_body_def Let_def split: base_class.split option.split sum.split)

lemma stop_keeps_context: "plugin_context (plugin_of (stop env p t)) = plugin_context p"
  by (simp add: stop_def BaseIsolatedPlugin_stop_def run_body_def Let_def
      split: base_class.split option.split)

lemma started_broadcasts_append:
  "started_broadcasts (xs @ ys) = started_broadcasts xs @ started_broadcasts ys"
  by (induction xs rule: started_broadcasts.induct) simp_all

lemma started_only_after_start_seen: "started_only_after_start True xs"
  by (induction "True" xs rule: started_only_after_start.induct) simp_all

text \<open>A \<^verbatim>\<open>BasePlugin.boot\<close> that returns has set the flag, entered \<^verbatim>\<open>start\<close>, run its
  body, and then broadcast and logged.\<close>

lemma BasePlugin_boot_completed:
  assumes "BasePlugin_boot p t = Returned p' t'"
  shows "\<exists>bus. BasePlugin_event_bus p = Inr bus \<and> p' = p\<lparr>running := True\<rparr> \<and>
           t' = t @ Invoke_start # emits (start_body p) @
                  [Broadcast bus (PluginStartedEvent (plugin_type p)) None,
                   LogInfo (logger p) (''Plugin started: '' @ name p)]"
  using assms
  by (auto simp: BasePlugin_boot_def start_def run_body_def BasePlugin_event_bus_def
      logger_def Let_def split: option.splits sum.splits)

subsection \<open>The context and the bus handle\<close>

text \<open>
  C2. For every plugin variant, reading \<^verbatim>\<open>event_bus\<close> before \<^verbatim>\<open>set_context\<close> was called
  raises EventBusNotReady: on a new object, on a new object that was booted or made
  ready in the meantime (neither method assigns the context), and on any object whose
  context is None. After \<^verbatim>\<open>set_context\<close> was called with a context it returns that
  context's bus handle.
\<close>

theorem event_bus_not_ready_then_ready:
  "BasePlugin_event_bus (new_plugin ty v n sb tb) =
     Inl (EventBusNotReady ''Tried accessing ``event_bus`` before ``ready`` was called'')
   \<and> BasePlugin_event_bus (p\<lparr>plugin_context := None\<rparr>) =
     Inl (EventBusNotReady ''Tried accessing ``event_bus`` before ``ready`` was called'')
   \<and> BasePlugin_event_bus (plugin_of (boot (new_plugin ty v n sb tb) t)) =
     Inl (EventBusNotReady ''Tried accessing ``event_bus`` before ``ready`` was called'')
   \<and> BasePlugin_event_bus (plugin_of (BasePlugin_ready (new_plugin ty v n sb tb) t)) =
     Inl (EventBusNotReady ''Tried accessing ``event_bus`` before ``ready`` was called'')
   \<and> BasePlugin_event_bus (BasePlugin_set_context p c) = Inr (event_bus c)"
  by (simp add: BasePlugin_event_bus_def BasePlugin_set_context_def boot_keeps_context
      BasePlugin_ready_def) (simp add: new_plugin_def)

text \<open>
  C7. Calling \<^verbatim>\<open>set_context\<close> with A and then with B leaves the plugin in the state of
  a plugin on which it was called once, with B; \<^verbatim>\<open>event_bus\<close> then returns B's handle.
\<close>

theorem set_context_twice:
  "BasePlugin_set_context (BasePlugin_set_context p A) B = BasePlugin_set_context p B
   \<and> BasePlugin_event_bus (BasePlugin_set_context (BasePlugin_set_context p A) B)
       = Inr (event_bus B)
   \<and> plugin_context (BasePlugin_set_context (BasePlugin_set_context p A) B) = Some B"
  by (simp add: BasePlugin_event_bus_def BasePlugin_set_context_def)

subsection \<open>Requesting the host's shutdown\<close>

text \<open>
  C5. Every call of \<^verbatim>\<open>shutdown_host\<close> adds exactly one action, the broadcast of a
  ShutdownRequest on the context's bus with a configuration whose filter is the main
  endpoint; nothing follows the broadcast (no acknowledgement is awaited) and the value
  returned is None. The call is the same whichever plugin reached the context.
\<close>

theorem shutdown_host_one_request:
  "actions_after (shutdown_host c t) =
     t @ [Broadcast (event_bus c) ShutdownRequest
            (Some (BroadcastConfig (Some MAIN_EVENTBUS_ENDPOINT)))]
   \<and> shutdown_broadcasts (drop (length t) (actions_after (shutdown_host c t))) =
       [(event_bus c, Some (BroadcastConfig (Some MAIN_EVENTBUS_ENDPOINT)))]
   \<and> length (actions_after (shutdown_host c t)) = Suc (length t)
   \<and> returned (shutdown_host c t) = PyNone
   \<and> shutdown_host (the (plugin_context (BasePlugin_set_context p c))) t =
       shutdown_host (the (plugin_context (BasePlugin_set_context q c))) t"
  by (simp add: shutdown_host_def BasePlugin_set_context_def)

text \<open>
  C10. \<^verbatim>\<open>shutdown_host\<close> reads the bus handle only: whatever the boot parameters, the
  parsed arguments and the host configuration are (also None, as after the constructor),
  the actions and the value returned are the same; and the four fields of the context are
  afterwards what they were.
\<close>

theorem shutdown_host_frame:
  "actions_after (shutdown_host (c\<lparr>boot_kwargs := k, args := a, trinity_config := g\<rparr>) t) =
     actions_after (shutdown_host c t)
   \<and> returned (shutdown_host (c\<lparr>boot_kwargs := k, args := a, trinity_config := g\<rparr>) t) =
     returned (shutdown_host c t)
   \<and> actions_after (shutdown_host (PluginContext_init (event_bus c)) t) =
     actions_after (shutdown_host c t)
   \<and> context_after (shutdown_host c t) = c
   \<and> event_bus (context_after (shutdown_host c t)) = event_bus c
   \<and> boot_kwargs (context_after (shutdown_host c t)) = boot_kwargs c
   \<and> args (context_after (shutdown_host c t)) = args c
   \<and> trinity_config (context_after (shutdown_host c t)) = trinity_config c"
  by (simp add: shutdown_host_def PluginContext_init_def)

subsection \<open>The running flag\<close>

text \<open>
  C4, as the claim states it, fails: a DebugPlugin (asynchronous stop) and an isolated
  plugin are booted and then stopped, both calls return, and the running flag is still
  true after \<^verbatim>\<open>stop\<close>.
\<close>

theorem running_after_stop_counterexample:
  "exn_of (boot debug_with_context []) = None
   \<and> exn_of (stop obedient (plugin_of (boot debug_with_context []))
                (trace_of (boot debug_with_context []))) = None
   \<and> running (plugin_of (stop obedient (plugin_of (boot debug_with_context []))
                (trace_of (boot debug_with_context []))))
   \<and> exn_of (stop obedient (plugin_of (boot isolated_with_context []))
                (trace_of (boot isolated_with_context []))) = None
   \<and> running (plugin_of (stop obedient (plugin_of (boot isolated_with_context []))
                (trace_of (boot isolated_with_context []))))"
  by (simp add: debug_with_context_def isolated_with_context_def example_isolated_def
      boot_def stop_def BasePlugin_boot_def BaseIsolatedPlugin_boot_def
      BaseIsolatedPlugin_stop_def start_def run_body_def
      BasePlugin_set_context_def DebugPlugin_def new_plugin_def
      BasePlugin_event_bus_def Let_def)

text \<open>
  C4, amended. \<^verbatim>\<open>boot\<close> sets the running flag: the flag is true after every \<^verbatim>\<open>boot\<close>,
  of every variant, returned or raised. \<^verbatim>\<open>stop\<close> does not touch the flag: after
  \<^verbatim>\<open>stop\<close>, of every variant, returned or raised, the flag is what it was before, so a
  running plugin still reads as running.
\<close>

theorem boot_sets_running_stop_keeps_it:
  "running (plugin_of (boot p t)) = True
   \<and> running (plugin_of (stop env p t)) = running p"
  by (simp add: boot_def stop_def BasePlugin_boot_def BaseIsolatedPlugin_boot_def
      BaseIsolatedPlugin_stop_def start_def run_body_def Let_def
      split: base_class.split option.split sum.split result.split)

text \<open>
  C9. \<^verbatim>\<open>boot\<close> of an in-process plugin that has no context, whose \<^verbatim>\<open>start\<close> returns,
  raises EventBusNotReady; the object it leaves has the running flag set, and the actions
  are those of the entry into \<^verbatim>\<open>start\<close> and of its body: nothing is rolled back.
\<close>

theorem boot_fails_after_start_without_context:
  assumes "variant p \<noteq> BaseIsolatedPlugin"
    and "plugin_context p = None"
    and "raises (start_body p) = None"
  shows "boot p t =
           Raised (EventBusNotReady ''Tried accessing ``event_bus`` before ``ready`` was called'')
             (p\<lparr>running := True\<rparr>) (t @ Invoke_start # emits (start_body p))"
  using assms
  by (cases "variant p")
     (simp_all add: boot_def BasePlugin_boot_def start_def run_body_def
        BasePlugin_event_bus_def)

theorem boot_fails_after_start_without_context_witness:
  "boot DebugPlugin [] =
     Raised (EventBusNotReady ''Tried accessing ``event_bus`` before ``ready`` was called'')
       (DebugPlugin\<lparr>running := True\<rparr>)
       [Invoke_start,
        LogInfo ''trinity.extensibility.plugin.BasePlugin#Debug Plugin''
          ''Debug plugin: start called'',
        EnsureFuture ''count_forever'']
   \<and> running (plugin_of (boot DebugPlugin []))"
  using boot_fails_after_start_without_context [of DebugPlugin "[]"]
  by (simp add: DebugPlugin_def new_plugin_def)

subsection \<open>The PluginStartedEvent\<close>

text \<open>The DebugPlugin booted in the host.\<close>

lemma boot_debug_value:
  "boot debug_with_context [] =
     Returned (debug_with_context\<lparr>running := True\<rparr>)
       [Invoke_start,
        LogInfo ''trinity.extensibility.plugin.BasePlugin#Debug Plugin''
          ''Debug plugin: start called'',
        EnsureFuture ''count_forever'',
        Broadcast (Endpoint ''plugin-bus'') (PluginStartedEvent ''DebugPlugin'') None,
        LogInfo ''trinity.extensibility.plugin.BasePlugin#Debug Plugin''
          ''Plugin started: Debug Plugin'']"
  by (simp add: debug_with_context_def DebugPlugin_def new_plugin_def example_context_def
      PluginContext_init_def BasePlugin_set_context_def boot_def BasePlugin_boot_def
      start_def run_body_def BasePlugin_event_bus_def logger_def)

text \<open>The entry point, once it has the log queue, goes on to the broadcast and to
  \<^verbatim>\<open>start\<close>; what a body adds and how it ends; what the isolated \<^verbatim>\<open>boot\<close> returns.\<close>

lemma prepare_start_reaches_start:
  assumes "plugin_context q = Some c" and "boot_kwargs c = Some kw"
    and "kw ''log_queue'' = Some lq"
  shows "BaseIsolatedPlugin_prepare_start q u =
           run_body (start_body q) q
             (u @ [SetupQueueLogging lq
                     (case kw ''log_level'' of None \<Rightarrow> logging_INFO | Some v \<Rightarrow> v),
                   ConnectNoWait (event_bus c),
                   Broadcast (event_bus c) (PluginStartedEvent (plugin_type q)) None,
                   Invoke_start])"
  using assms
  by (simp add: BaseIsolatedPlugin_prepare_start_def BasePlugin_event_bus_def start_def
      Let_def)

lemma run_body_trace: "trace_of (run_body b q u) = u @ emits b"
  by (simp add: run_body_def split: option.split)

lemma run_body_exn: "exn_of (run_body b q u) = raises b"
  by (simp add: run_body_def split: option.split)

lemma isolated_boot_value:
  assumes "variant p = BaseIsolatedPlugin"
  shows "boot p t =
           Returned (p\<lparr>running := True, process := Some (Process ''_prepare_start'')\<rparr>)
             (t @ [ProcessStart (Process ''_prepare_start''),
                   LogInfo (logger p) (''Plugin started: '' @ name p)])"
  using assms by (simp add: boot_def BaseIsolatedPlugin_boot_def logger_def Let_def)

text \<open>
  C1, as the claim states it, fails for the isolated plugin in two ways. With the full
  context, \<^verbatim>\<open>boot\<close> returns and the entry point run on the booted object broadcasts the
  PluginStartedEvent before it enters \<^verbatim>\<open>start\<close>. With a context as the constructor
  leaves it, \<^verbatim>\<open>boot\<close> returns as well, and the process it spawned raises before any
  broadcast: that completed \<^verbatim>\<open>boot\<close> causes no PluginStartedEvent at all.
\<close>

theorem started_before_start_counterexample:
  "exn_of (boot isolated_with_context []) = None
   \<and> BaseIsolatedPlugin_prepare_start (plugin_of (boot isolated_with_context [])) [] =
     Returned (plugin_of (boot isolated_with_context []))
       [SetupQueueLogging (PyObj 1) (PyInt 10),
        ConnectNoWait (Endpoint ''plugin-bus''),
        Broadcast (Endpoint ''plugin-bus'') (PluginStartedEvent ''ExamplePlugin'') None,
        Invoke_start]
   \<and> \<not> started_only_after_start False
         (trace_of (BaseIsolatedPlugin_prepare_start
                      (plugin_of (boot isolated_with_context [])) []))
   \<and> exn_of (boot isolated_bare_context []) = None
   \<and> child_run (plugin_of (boot isolated_bare_context [])) [] =
       Some (Raised (TypeError ''NoneType object is not subscriptable'')
               (plugin_of (boot isolated_bare_context [])) [])
   \<and> started_broadcasts (trace_of (boot isolated_bare_context [])) = []"
  by (simp add: isolated_with_context_def isolated_bare_context_def example_isolated_def
      example_context_def child_run_def
      BasePlugin_set_context_def new_plugin_def PluginContext_init_def pass_def
      boot_def BaseIsolatedPlugin_boot_def BaseIsolatedPlugin_prepare_start_def
      BasePlugin_event_bus_def start_def run_body_def Let_def)

text \<open>
  C1, amended. In-process variants: a \<^verbatim>\<open>boot\<close> that returns has added, in this order, the
  entry into \<^verbatim>\<open>start\<close>, the actions of its body, one unfiltered broadcast of a
  PluginStartedEvent carrying the plugin's class, and a log record; so every
  PluginStartedEvent comes after the entry into \<^verbatim>\<open>start\<close>, and there is exactly one when
  the body of \<^verbatim>\<open>start\<close> broadcasts none itself. Isolated variant: every \<^verbatim>\<open>boot\<close>
  returns, broadcasts nothing itself and starts a process whose run is the entry point
  \<^verbatim>\<open>_prepare_start\<close> on the booted object. When the context holds boot parameters with
  a log queue, that run sets up logging, connects, broadcasts one PluginStartedEvent
  carrying the plugin's class and then enters \<^verbatim>\<open>start\<close>, whether \<^verbatim>\<open>start\<close> returns or
  raises: the broadcast comes before the entry into \<^verbatim>\<open>start\<close>, and it is the only one
  when the body of \<^verbatim>\<open>start\<close> broadcasts none itself. When the context, the boot
  parameters or the log queue is missing, that run raises before any action, so nothing
  is broadcast.
\<close>

theorem started_event_order:
  "(variant p \<noteq> BaseIsolatedPlugin \<longrightarrow> boot p t = Returned p' t' \<longrightarrow>
      (\<exists>bus. BasePlugin_event_bus p = Inr bus \<and>
         t' = t @ Invoke_start # emits (start_body p) @
                [Broadcast bus (PluginStartedEvent (plugin_type p)) None,
                 LogInfo (logger p) (''Plugin started: '' @ name p)])
      \<and> started_only_after_start False (drop (length t) t')
      \<and> (started_broadcasts (emits (start_body p)) = [] \<longrightarrow>
           started_broadcasts (drop (length t) t') = [plugin_type p]))
   \<and> (variant p = BaseIsolatedPlugin \<longrightarrow>
        boot p t =
          Returned (p\<lparr>running := True, process := Some (Process ''_prepare_start'')\<rparr>)
            (t @ [ProcessStart (Process ''_prepare_start''),
                  LogInfo (logger p) (''Plugin started: '' @ name p)])
        \<and> started_broadcasts (drop (length t) (trace_of (boot p t))) = []
        \<and> child_run (plugin_of (boot p t)) u =
            Some (BaseIsolatedPlugin_prepare_start (plugin_of (boot p t)) u)
        \<and> (plugin_context p = Some c \<longrightarrow> boot_kwargs c = Some kw \<longrightarrow>
             kw ''log_queue'' = Some lq \<longrightarrow>
               BaseIsolatedPlugin_prepare_start (plugin_of (boot p t)) u =
                 run_body (start_body p) (plugin_of (boot p t))
                   (u @ [SetupQueueLogging lq
                           (case kw ''log_level'' of None \<Rightarrow> logging_INFO | Some v \<Rightarrow> v),
                         ConnectNoWait (event_bus c),
                         Broadcast (event_bus c) (PluginStartedEvent (plugin_type p)) None,
                         Invoke_start])
               \<and> trace_of (BaseIsolatedPlugin_prepare_start (plugin_of (boot p t)) u) =
                 u @ [SetupQueueLogging lq
                        (case kw ''log_level'' of None \<Rightarrow> logging_INFO | Some v \<Rightarrow> v),
                      ConnectNoWait (event_bus c),
                      Broadcast (event_bus c) (PluginStartedEvent (plugin_type p)) None,
                      Invoke_start] @ emits (start_body p)
               \<and> exn_of (BaseIsolatedPlugin_prepare_start (plugin_of (boot p t)) u) =
                   raises (start_body p)
               \<and> \<not> started_only_after_start False
                     (drop (length u)
                        (trace_of (BaseIsolatedPlugin_prepare_start (plugin_of (boot p t)) u)))
               \<and> (started_broadcasts (emits (start_body p)) = [] \<longrightarrow>
                    started_broadcasts
                      (drop (length u)
                         (trace_of (BaseIsolatedPlugin_prepare_start (plugin_of (boot p t)) u)))
                    = [plugin_type p]))
        \<and> (plugin_context p = None \<longrightarrow>
             BaseIsolatedPlugin_prepare_start (plugin_of (boot p t)) u =
               Raised (AttributeError ''boot_kwargs'') (plugin_of (boot p t)) u)
        \<and> (plugin_context p = Some c \<longrightarrow> boot_kwargs c = None \<longrightarrow>
             BaseIsolatedPlugin_prepare_start (plugin_of (boot p t)) u =
               Raised (TypeError ''NoneType object is not subscriptable'')
                 (plugin_of (boot p t)) u)
        \<and> (plugin_context p = Some c \<longrightarrow> boot_kwargs c = Some kw \<longrightarrow>
             kw ''log_queue'' = None \<longrightarrow>
             BaseIsolatedPlugin_prepare_start (plugin_of (boot p t)) u =
               Raised (KeyError ''log_queue'') (plugin_of (boot p t)) u))"
proof (intro conjI impI)
  assume v: "variant p \<noteq> BaseIsolatedPlugin" and b: "boot p t = Returned p' t'"
  from v b have "BasePlugin_boot p t = Returned p' t'"
    by (cases "variant p") (simp_all add: boot_def)
  from BasePlugin_boot_completed [OF this] obtain bus where
    bus: "BasePlugin_event_bus p = Inr bus" and
    t': "t' = t @ Invoke_start # emits (start_body p) @
                [Broadcast bus (PluginStartedEvent (plugin_type p)) None,
                 LogInfo (logger p) (''Plugin started: '' @ name p)]"
    by blast
  show "\<exists>bus. BasePlugin_event_bus p = Inr bus \<and>
         t' = t @ Invoke_start # emits (start_body p) @
                [Broadcast bus (PluginStartedEvent (plugin_type p)) None,
                 LogInfo (logger p) (''Plugin started: '' @ name p)]"
    using bus t' by blast
  show "started_only_after_start False (drop (length t) t')"
    by (simp add: t' started_only_after_start_seen)
  assume "started_broadcasts (emits (start_body p)) = []"
  then show "started_broadcasts (drop (length t) t') = [plugin_type p]"
    by (simp add: t' started_broadcasts_append)
next
  assume v: "variant p = BaseIsolatedPlugin"
  note b = isolated_boot_value [OF v, of t]
  show "boot p t =
          Returned (p\<lparr>running := True, process := Some (Process ''_prepare_start'')\<rparr>)
            (t @ [ProcessStart (Process ''_prepare_start''),
                  LogInfo (logger p) (''Plugin started: '' @ name p)])"
    by (rule b)
  show "started_broadcasts (drop (length t) (trace_of (boot p t))) = []"
    by (simp add: b)
  show "child_run (plugin_of (boot p t)) u =
          Some (BaseIsolatedPlugin_prepare_start (plugin_of (boot p t)) u)"
    by (simp add: b child_run_def)
  {
    assume c: "plugin_context p = Some c" and kw: "boot_kwargs c = Some kw"
      and lq: "kw ''log_queue'' = Some lq"
    from c have c1: "plugin_context (plugin_of (boot p t)) = Some c"
      by (simp add: b)
    note r = prepare_start_reaches_start [OF c1 kw lq, of u]
    show "BaseIsolatedPlugin_prepare_start (plugin_of (boot p t)) u =
            run_body (start_body p) (plugin_of (boot p t))
              (u @ [SetupQueueLogging lq
                      (case kw ''log_level'' of None \<Rightarrow> logging_INFO | Some v \<Rightarrow> v),
                    ConnectNoWait (event_bus c),
                    Broadcast (event_bus c) (PluginStartedEvent (plugin_type p)) None,
                    Invoke_start])"
      by (simp add: r) (simp add: b)
    show tr: "trace_of (BaseIsolatedPlugin_prepare_start (plugin_of (boot p t)) u) =
            u @ [SetupQueueLogging lq
                   (case kw ''log_level'' of None \<Rightarrow> logging_INFO | Some v \<Rightarrow> v),
                 ConnectNoWait (event_bus c),
                 Broadcast (event_bus c) (PluginStartedEvent (plugin_type p)) None,
                 Invoke_start] @ emits (start_body p)"
      by (simp add: r run_body_trace) (simp add: b)
    show "exn_of (BaseIsolatedPlugin_prepare_start (plugin_of (boot p t)) u) =
            raises (start_body p)"
      by (simp add: r run_body_exn) (simp add: b)
    show "\<not> started_only_after_start False
              (drop (length u)
                 (trace_of (BaseIsolatedPlugin_prepare_start (plugin_of (boot p t)) u)))"
      by (simp add: tr)
    assume "started_broadcasts (emits (start_body p)) = []"
    then show "started_broadcasts
              (drop (length u)
                 (trace_of (BaseIsolatedPlugin_prepare_start (plugin_of (boot p t)) u)))
            = [plugin_type p]"
      by (simp add: tr started_broadcasts_append)
  }
  {
    assume "plugin_context p = None"
    then show "BaseIsolatedPlugin_prepare_start (plugin_of (boot p t)) u =
               Raised (AttributeError ''boot_kwargs'') (plugin_of (boot p t)) u"
      by (simp add: b BaseIsolatedPlugin_prepare_start_def)
  }
  {
    assume "plugin_context p = Some c" and "boot_kwargs c = None"
    then show "BaseIsolatedPlugin_prepare_start (plugin_of (boot p t)) u =
               Raised (TypeError ''NoneType object is not subscriptable'')
                 (plugin_of (boot p t)) u"
      by (simp add: b BaseIsolatedPlugin_prepare_start_def)
  }
  {
    assume "plugin_context p = Some c" and "boot_kwargs c = Some kw"
      and "kw ''log_queue'' = None"
    then show "BaseIsolatedPlugin_prepare_start (plugin_of (boot p t)) u =
               Raised (KeyError ''log_queue'') (plugin_of (boot p t)) u"
      by (simp add: b BaseIsolatedPlugin_prepare_start_def)
  }
qed

theorem started_event_order_witness:
  "started_broadcasts (trace_of (boot debug_with_context [])) = [''DebugPlugin'']
   \<and> started_only_after_start False (trace_of (boot debug_with_context []))
   \<and> child_run (plugin_of (boot isolated_with_context [])) [] =
       Some (Returned (plugin_of (boot isolated_with_context []))
               [SetupQueueLogging (PyObj 1) (PyInt 10),
                ConnectNoWait (Endpoint ''plugin-bus''),
                Broadcast (Endpoint ''plugin-bus'') (PluginStartedEvent ''ExamplePlugin'') None,
                Invoke_start])
   \<and> child_run (plugin_of (boot failing_isolated [])) [] =
       Some (Raised (PluginError ''start failed'') (plugin_of (boot failing_isolated []))
               [SetupQueueLogging (PyObj 1) (PyInt 10),
                ConnectNoWait (Endpoint ''plugin-bus''),
                Broadcast (Endpoint ''plugin-bus'') (PluginStartedEvent ''FailingPlugin'') None,
                Invoke_start])
   \<and> started_broadcasts
        (trace_of (BaseIsolatedPlugin_prepare_start (plugin_of (boot failing_isolated [])) []))
       = [''FailingPlugin'']
   \<and> \<not> started_only_after_start False
        (trace_of (BaseIsolatedPlugin_prepare_start (plugin_of (boot failing_isolated [])) []))
   \<and> child_run (plugin_of (boot isolated_bare_context [])) [] =
       Some (Raised (TypeError ''NoneType object is not subscriptable'')
               (plugin_of (boot isolated_bare_context [])) [])"
proof -
  have v: "variant debug_with_context \<noteq> BaseIsolatedPlugin"
    and e: "started_broadcasts (emits (start_body debug_with_context)) = []"
    and ty: "plugin_type debug_with_context = ''DebugPlugin''"
    by (simp_all add: debug_with_context_def DebugPlugin_def new_plugin_def
        BasePlugin_set_context_def)
  note d = started_event_order [where p = debug_with_context and t = "[]"
      and p' = "debug_with_context\<lparr>running := True\<rparr>"
      and t' = "trace_of (boot debug_with_context [])"]
  from d v e ty boot_debug_value
  have in_process:
    "started_broadcasts (trace_of (boot debug_with_context [])) = [''DebugPlugin'']"
    "started_only_after_start False (trace_of (boot debug_with_context []))"
    by simp_all
  have kw: "boot_kwargs example_context =
              Some [''log_queue'' \<mapsto> PyObj 1, ''log_level'' \<mapsto> PyInt 10]"
    and bus: "event_bus example_context = Endpoint ''plugin-bus''"
    by (simp_all add: example_context_def PluginContext_init_def)
  have vi: "variant isolated_with_context = BaseIsolatedPlugin"
    and ci: "plugin_context isolated_with_context = Some example_context"
    and bi: "start_body isolated_with_context = Body [] None"
    and tyi: "plugin_type isolated_with_context = ''ExamplePlugin''"
    by (simp_all add: isolated_with_context_def example_isolated_def new_plugin_def
        BasePlugin_set_context_def pass_def)
  note i = started_event_order [where p = isolated_with_context and t = "[]" and u = "[]"
      and c = example_context
      and kw = "[''log_queue'' \<mapsto> PyObj 1, ''log_level'' \<mapsto> PyInt 10]"
      and lq = "PyObj 1"]
  from i vi ci bi tyi kw bus
  have returning:
    "child_run (plugin_of (boot isolated_with_context [])) [] =
       Some (Returned (plugin_of (boot isolated_with_context []))
               [SetupQueueLogging (PyObj 1) (PyInt 10),
                ConnectNoWait (Endpoint ''plugin-bus''),
                Broadcast (Endpoint ''plugin-bus'') (PluginStartedEvent ''ExamplePlugin'') None,
                Invoke_start])"
    by (auto simp: run_body_def)
  have vf: "variant failing_isolated = BaseIsolatedPlugin"
    and cf: "plugin_context failing_isolated = Some example_context"
    and bf: "start_body failing_isolated = Body [] (Some (PluginError ''start failed''))"
    and tyf: "plugin_type failing_isolated = ''FailingPlugin''"
    by (simp_all add: failing_isolated_def new_plugin_def BasePlugin_set_context_def)
  note f = started_event_order [where p = failing_isolated and t = "[]" and u = "[]"
      and c = example_context
      and kw = "[''log_queue'' \<mapsto> PyObj 1, ''log_level'' \<mapsto> PyInt 10]"
      and lq = "PyObj 1"]
  from f vf cf bf tyf kw bus
  have raising:
    "child_run (plugin_of (boot failing_isolated [])) [] =
       Some (Raised (PluginError ''start failed'') (plugin_of (boot failing_isolated []))
               [SetupQueueLogging (PyObj 1) (PyInt 10),
                ConnectNoWait (Endpoint ''plugin-bus''),
                Broadcast (Endpoint ''plugin-bus'') (PluginStartedEvent ''FailingPlugin'') None,
                Invoke_start])"
    "started_broadcasts
        (trace_of (BaseIsolatedPlugin_prepare_start (plugin_of (boot failing_isolated [])) []))
       = [''FailingPlugin'']"
    "\<not> started_only_after_start False
        (trace_of (BaseIsolatedPlugin_prepare_start (plugin_of (boot failing_isolated [])) []))"
    by (auto simp: run_body_def)
  have vb: "variant isolated_bare_context = BaseIsolatedPlugin"
    and cb: "plugin_context isolated_bare_context =
               Some (PluginContext_init (Endpoint ''plugin-bus''))"
    and kb: "boot_kwargs (PluginContext_init (Endpoint ''plugin-bus'')) = None"
    by (simp_all add: isolated_bare_context_def example_isolated_def new_plugin_def
        BasePlugin_set_context_def PluginContext_init_def)
  note n = started_event_order [where p = isolated_bare_context and t = "[]" and u = "[]"
      and c = "PluginContext_init (Endpoint ''plugin-bus'')"]
  from n vb cb kb
  have bare:
    "child_run (plugin_of (boot isolated_bare_context [])) [] =
       Some (Raised (TypeError ''NoneType object is not subscriptable'')
               (plugin_of (boot isolated_bare_context [])) [])"
    by auto
  from in_process returning raising bare show ?thesis by blast
qed

subsection \<open>The isolated plugin: boot, entry point, stop\<close>

text \<open>
  C6. \<^verbatim>\<open>boot\<close> of an isolated plugin sets the flag, starts a process whose target is
  \<^verbatim>\<open>_prepare_start\<close>, logs and returns: two actions, whatever the object and its context
  are, and none of them waits for the new process. The entry point, given a context whose
  boot parameters hold a log queue, performs in this order: the logging set-up with that
  queue and the level, the connection without waiting, the broadcast of the
  PluginStartedEvent, the entry into \<^verbatim>\<open>start\<close> and its body.
\<close>

theorem isolated_boot_and_entry_point:
  "BaseIsolatedPlugin_boot p t =
     Returned (p\<lparr>running := True, process := Some (Process ''_prepare_start'')\<rparr>)
       (t @ [ProcessStart (Process ''_prepare_start''),
             LogInfo (logger p) (''Plugin started: '' @ name p)])
   \<and> (variant p = BaseIsolatedPlugin \<longrightarrow> boot p t = BaseIsolatedPlugin_boot p t)
   \<and> (plugin_context p = Some c \<longrightarrow> boot_kwargs c = Some kw \<longrightarrow> kw ''log_queue'' = Some q \<longrightarrow>
        BaseIsolatedPlugin_prepare_start p t =
          run_body (start_body p) p
            (t @ [SetupQueueLogging q
                    (case kw ''log_level'' of None \<Rightarrow> logging_INFO | Some v \<Rightarrow> v),
                  ConnectNoWait (event_bus c),
                  Broadcast (event_bus c) (PluginStartedEvent (plugin_type p)) None,
                  Invoke_start]))"
  by (simp add: BaseIsolatedPlugin_boot_def boot_def BaseIsolatedPlugin_prepare_start_def
      BasePlugin_event_bus_def start_def logger_def Let_def)

theorem isolated_boot_and_entry_point_witness:
  "boot isolated_with_context [] =
     Returned (isolated_with_context\<lparr>running := True, process := Some (Process ''_prepare_start'')\<rparr>)
       [ProcessStart (Process ''_prepare_start''),
        LogInfo ''trinity.extensibility.plugin.BasePlugin#Example'' ''Plugin started: Example'']
   \<and> BaseIsolatedPlugin_prepare_start (plugin_of (boot isolated_with_context [])) [] =
     Returned (plugin_of (boot isolated_with_context []))
       [SetupQueueLogging (PyObj 1) (PyInt 10),
        ConnectNoWait (Endpoint ''plugin-bus''),
        Broadcast (Endpoint ''plugin-bus'') (PluginStartedEvent ''ExamplePlugin'') None,
        Invoke_start]"
  using isolated_boot_and_entry_point [of isolated_with_context "[]" example_context
      "[''log_queue'' \<mapsto> PyObj 1, ''log_level'' \<mapsto> PyInt 10]" "PyObj 1"]
    isolated_boot_and_entry_point [of "plugin_of (boot isolated_with_context [])" "[]"
      example_context "[''log_queue'' \<mapsto> PyObj 1, ''log_level'' \<mapsto> PyInt 10]" "PyObj 1"]
  by (simp add: isolated_with_context_def example_isolated_def example_context_def
      BasePlugin_set_context_def new_plugin_def PluginContext_init_def pass_def logger_def
      run_body_def)

text \<open>
  C8. The entry point, given a context with boot parameters: without the key
  \<^verbatim>\<open>log_queue\<close> it raises KeyError before any action; with the queue and without the
  key \<^verbatim>\<open>log_level\<close> it sets logging up at \<^verbatim>\<open>logging.INFO\<close>; with both it sets logging
  up at the level given.
\<close>

theorem entry_point_boot_parameters:
  assumes "plugin_context p = Some c" and "boot_kwargs c = Some kw"
  shows "(kw ''log_queue'' = None \<longrightarrow>
            BaseIsolatedPlugin_prepare_start p t = Raised (KeyError ''log_queue'') p t)
       \<and> (kw ''log_queue'' = Some q \<longrightarrow> kw ''log_level'' = None \<longrightarrow>
            BaseIsolatedPlugin_prepare_start p t =
              start p (t @ [SetupQueueLogging q logging_INFO, ConnectNoWait (event_bus c),
                            Broadcast (event_bus c) (PluginStartedEvent (plugin_type p)) None]))
       \<and> (kw ''log_queue'' = Some q \<longrightarrow> kw ''log_level'' = Some v \<longrightarrow>
            BaseIsolatedPlugin_prepare_start p t =
              start p (t @ [SetupQueueLogging q v, ConnectNoWait (event_bus c),
                            Broadcast (event_bus c) (PluginStartedEvent (plugin_type p)) None]))"
  using assms
  by (simp add: BaseIsolatedPlugin_prepare_start_def BasePlugin_event_bus_def Let_def)

theorem entry_point_boot_parameters_witness:
  "BaseIsolatedPlugin_prepare_start
       (BasePlugin_set_context example_isolated example_context_no_queue) [] =
     Raised (KeyError ''log_queue'')
       (BasePlugin_set_context example_isolated example_context_no_queue) []
   \<and> trace_of (BaseIsolatedPlugin_prepare_start
       (BasePlugin_set_context example_isolated example_context_no_level) []) =
     [SetupQueueLogging (PyObj 1) (PyInt 20), ConnectNoWait (Endpoint ''plugin-bus''),
      Broadcast (Endpoint ''plugin-bus'') (PluginStartedEvent ''ExamplePlugin'') None,
      Invoke_start]
   \<and> trace_of (BaseIsolatedPlugin_prepare_start isolated_with_context []) =
     [SetupQueueLogging (PyObj 1) (PyInt 10), ConnectNoWait (Endpoint ''plugin-bus''),
      Broadcast (Endpoint ''plugin-bus'') (PluginStartedEvent ''ExamplePlugin'') None,
      Invoke_start]"
  using entry_point_boot_parameters [of
      "BasePlugin_set_context example_isolated example_context_no_queue"
      example_context_no_queue "[''log_level'' \<mapsto> PyInt 10]" "[]" "PyObj 1" "PyInt 10"]
    entry_point_boot_parameters [of
      "BasePlugin_set_context example_isolated example_context_no_level"
      example_context_no_level "[''log_queue'' \<mapsto> PyObj 1]" "[]" "PyObj 1" "PyInt 10"]
    entry_point_boot_parameters [of isolated_with_context
      example_context "[''log_queue'' \<mapsto> PyObj 1, ''log_level'' \<mapsto> PyInt 10]"
      "[]" "PyObj 1" "PyInt 10"]
  by (simp add: isolated_with_context_def example_isolated_def example_context_def
      example_context_no_level_def example_context_no_queue_def logging_INFO_def
      BasePlugin_set_context_def new_plugin_def PluginContext_init_def pass_def
      start_def run_body_def)

text \<open>
  C3. \<^verbatim>\<open>stop\<close> of an isolated plugin that has its context and its process: first the stop
  of the bus connection, then the termination helper: the interrupt, the grace period,
  and, when the process has not exited by then, the forced termination and a fault
  logged. So a failure to exit gracefully is always logged, whether or not the forced
  signal ends the process, and a graceful exit logs no fault. The call returns in every
  case; nothing is raised.
\<close>

theorem isolated_stop_order:
  assumes "variant p = BaseIsolatedPlugin"
    and "plugin_context p = Some c" and "process p = Some proc"
  shows "stop env p t =
           Returned p
             (t @ [EndpointStop (event_bus c), SendSignal proc Interrupt, WaitGracePeriod proc]
                @ (if exits_on_interrupt env then []
                   else [SendSignal proc ForcedTermination,
                         LogFault (logger p) ''process did not exit within the grace period'']))
         \<and> exn_of (stop env p t) = None
         \<and> (LogFault (logger p) ''process did not exit within the grace period''
              \<in> set (drop (length t) (trace_of (stop env p t))))
             = (\<not> exits_on_interrupt env)"
  using assms
  by (simp add: BaseIsolatedPlugin_stop_def kill_process_gracefully_def stop_def Let_def)

theorem isolated_stop_order_witness:
  "stop stubborn (plugin_of (boot isolated_with_context [])) [] =
     Returned (plugin_of (boot isolated_with_context []))
       [EndpointStop (Endpoint ''plugin-bus''),
        SendSignal (Process ''_prepare_start'') Interrupt,
        WaitGracePeriod (Process ''_prepare_start''),
        SendSignal (Process ''_prepare_start'') ForcedTermination,
        LogFault ''trinity.extensibility.plugin.BasePlugin#Example''
          ''process did not exit within the grace period'']
   \<and> stop reluctant (plugin_of (boot isolated_with_context [])) [] =
     Returned (plugin_of (boot isolated_with_context []))
       [EndpointStop (Endpoint ''plugin-bus''),
        SendSignal (Process ''_prepare_start'') Interrupt,
        WaitGracePeriod (Process ''_prepare_start''),
        SendSignal (Process ''_prepare_start'') ForcedTermination,
        LogFault ''trinity.extensibility.plugin.BasePlugin#Example''
          ''process did not exit within the grace period'']
   \<and> stop obedient (plugin_of (boot isolated_with_context [])) [] =
     Returned (plugin_of (boot isolated_with_context []))
       [EndpointStop (Endpoint ''plugin-bus''),
        SendSignal (Process ''_prepare_start'') Interrupt,
        WaitGracePeriod (Process ''_prepare_start'')]"
  using isolated_stop_order [of "plugin_of (boot isolated_with_context [])" example_context
      "Process ''_prepare_start''" stubborn "[]"]
    isolated_stop_order [of "plugin_of (boot isolated_with_context [])" example_context
      "Process ''_prepare_start''" reluctant "[]"]
    isolated_stop_order [of "plugin_of (boot isolated_with_context [])" example_context
      "Process ''_prepare_start''" obedient "[]"]
  by (simp add: isolated_with_context_def example_isolated_def example_context_def
      PluginContext_init_def
      BasePlugin_set_context_def new_plugin_def boot_def BaseIsolatedPlugin_boot_def
      stubborn_def reluctant_def obedient_def logger_def Let_def)

end
